theory Spec2Isabelle
  imports Main "HOL-Library.Word"
begin

section \<open>Python values, exceptions and built-in operations\<close>

text \<open>
  The module \<^verbatim>\<open>gcloud_data_analysis_functions.py\<close> holds five functions. Each one
  retrieves a payload through a client library and hands it to a parser chosen by the
  string \<^verbatim>\<open>file_format\<close>. The embedding keeps the Python the module itself executes
  (string splitting, indexing, the \<^verbatim>\<open>if/elif\<close> chains, the implicit \<^verbatim>\<open>return None\<close>,
  keyword forwarding, \<^verbatim>\<open>bytes.decode\<close>) as HOL functions, and takes every call into
  a client library (requests, pandas, json, bson, gspread, pydrive2, google.cloud) as a
  field of an environment record: a function that may raise.
\<close>

datatype py_error =
    IndexError
  | TypeError
  | ValueError
  | AttributeError
  | UnicodeDecodeError
  | LookupError
  | LibraryError string

text \<open>Sequencing of statements that may raise: the first exception ends the call.\<close>

definition and_then :: "py_error + 'a \<Rightarrow> ('a \<Rightarrow> py_error + 'b) \<Rightarrow> py_error + 'b" where
  "and_then r k = (case r of Inl e \<Rightarrow> Inl e | Inr x \<Rightarrow> k x)"

text \<open>
  Text whose characters the module never inspects beyond comparison (URLs, format
  tags, option names, file names) is a \<^typ>\<open>string\<close>; text that comes out of a codec is a
  list of Unicode code points; bytes are 8-bit words.
\<close>

type_synonym pystr = "nat list"
type_synonym bytes = "8 word list"

definition str :: "string \<Rightarrow> pystr" where
  "str s = map of_char s"

definition encode_ascii :: "string \<Rightarrow> bytes" where
  "encode_ascii s = map of_char s"

text \<open>\<^verbatim>\<open>s.split(sep)\<close> for a one-character separator: never an empty list.\<close>

fun str_split :: "'a \<Rightarrow> 'a list \<Rightarrow> 'a list list" where
  "str_split sep [] = [[]]"
| "str_split sep (c # cs) =
     (if c = sep then [] # str_split sep cs
      else (case str_split sep cs of
              [] \<Rightarrow> [[c]]
            | seg # segs \<Rightarrow> (c # seg) # segs))"

text \<open>\<^verbatim>\<open>sep.join(segs)\<close>, the inverse the claims about URL segments are stated with.\<close>

fun str_join :: "'a \<Rightarrow> 'a list list \<Rightarrow> 'a list" where
  "str_join sep [] = []"
| "str_join sep [seg] = seg"
| "str_join sep (seg # more # segs) = seg @ sep # str_join sep (more # segs)"

text \<open>\<^verbatim>\<open>xs[i]\<close>: a negative index counts from the end, an index out of range raises.\<close>

definition getitem :: "'a list \<Rightarrow> int \<Rightarrow> py_error + 'a" where
  "getitem xs i =
     (if 0 \<le> i \<and> i < int (length xs) then Inr (xs ! nat i)
      else if i < 0 \<and> - int (length xs) \<le> i then Inr (xs ! nat (int (length xs) + i))
      else Inl IndexError)"

text \<open>\<^verbatim>\<open>url.split("/")[-2]\<close>, as lines 54, 92 and 130 compute it.\<close>

definition file_id :: "string \<Rightarrow> py_error + string" where
  "file_id url = getitem (str_split CHR ''/'' url) (- 2)"

subsection \<open>Keyword options\<close>

datatype kwval = KStr string | KInt int | KBool bool | KNone

type_synonym kwargs = "(string \<times> kwval) list"

subsection \<open>The UTF-8 codec on well-formed input\<close>

definition is_continuation :: "nat \<Rightarrow> bool" where
  "is_continuation b = (128 \<le> b \<and> b < 192)"

text \<open>
  The code points of a well-formed UTF-8 byte sequence (byte values as naturals);
  \<open>None\<close> when the sequence is ill-formed: a stray or missing continuation byte, an
  overlong form, a surrogate, a value above U+10FFFF, or a truncated sequence.
\<close>

fun utf8_code_points :: "nat list \<Rightarrow> pystr option" where
  "utf8_code_points [] = Some []"
| "utf8_code_points (b0 # bs) =
     (if b0 < 128 then map_option (Cons b0) (utf8_code_points bs)
      else if b0 < 194 then None
      else if b0 < 224 then
        (case bs of
           b1 # r \<Rightarrow>
             if is_continuation b1
             then map_option (Cons ((b0 - 192) * 64 + (b1 - 128))) (utf8_code_points r)
             else None
         | _ \<Rightarrow> None)
      else if b0 < 240 then
        (case bs of
           b1 # b2 # r \<Rightarrow>
             if is_continuation b1 \<and> is_continuation b2
                \<and> (if b0 = 224 then 160 \<le> b1 else if b0 = 237 then b1 < 160 else True)
             then map_option
                    (Cons ((b0 - 224) * 4096 + (b1 - 128) * 64 + (b2 - 128)))
                    (utf8_code_points r)
             else None
         | _ \<Rightarrow> None)
      else if b0 < 245 then
        (case bs of
           b1 # b2 # b3 # r \<Rightarrow>
             if is_continuation b1 \<and> is_continuation b2 \<and> is_continuation b3
                \<and> (if b0 = 240 then 144 \<le> b1 else if b0 = 244 then b1 < 144 else True)
             then map_option
                    (Cons ((b0 - 240) * 262144 + (b1 - 128) * 4096
                           + (b2 - 128) * 64 + (b3 - 128)))
                    (utf8_code_points r)
             else None
         | _ \<Rightarrow> None)
      else None)"

text \<open>
  \<^verbatim>\<open>payload.decode("utf-8", errors)\<close>. On well-formed input the result is the code
  points, whatever the policy (the handler is looked up only when an error occurs). On
  ill-formed input the policy \<^verbatim>\<open>strict\<close> raises; what any other policy yields is the
  work of the interpreter's error-handler registry, taken as the parameter \<open>on_error\<close>.
\<close>

definition decode_utf8 ::
  "(string \<Rightarrow> bytes \<Rightarrow> py_error + pystr) \<Rightarrow> string \<Rightarrow> bytes \<Rightarrow> py_error + pystr" where
  "decode_utf8 on_error errors payload =
     (case utf8_code_points (map unat payload) of
        Some s \<Rightarrow> Inr s
      | None \<Rightarrow> if errors = ''strict'' then Inl UnicodeDecodeError
                else on_error errors payload)"

text \<open>
  The call \<^verbatim>\<open>payload.decode("utf-8", **kwargs)\<close> of lines 154 and 214. The signature is
  \<^verbatim>\<open>decode(encoding='utf-8', errors='strict')\<close> and the encoding is already bound by
  position: a keyword \<^verbatim>\<open>encoding\<close> binds it twice, any keyword other than
  \<^verbatim>\<open>errors\<close> is unknown, and \<^verbatim>\<open>errors\<close> must be a string (without a NUL character).
\<close>

definition bytes_decode_utf8 ::
  "(string \<Rightarrow> bytes \<Rightarrow> py_error + pystr) \<Rightarrow> bytes \<Rightarrow> kwargs \<Rightarrow> py_error + pystr" where
  "bytes_decode_utf8 on_error payload kw =
     (if list_ex (\<lambda>(name, v). name \<noteq> ''errors'') kw then Inl TypeError
      else (case map_of kw ''errors'' of
              None \<Rightarrow> decode_utf8 on_error ''strict'' payload
            | Some (KStr errors) \<Rightarrow>
                if CHR 0x00 \<in> set errors then Inl ValueError
                else decode_utf8 on_error errors payload
            | Some _ \<Rightarrow> Inl TypeError))"

section \<open>The client libraries\<close>

text \<open>
  What a parser is handed: a text stream, a byte stream, or a bytes object. The three
  are kept apart because the module passes all three.
\<close>

datatype source = StringIO pystr | BytesIO bytes | RawBytes bytes

text \<open>
  A \<^verbatim>\<open>requests.Response\<close>: the body as received, and the body as requests decoded it
  to text.
\<close>

record response =
  resp_content :: bytes
  resp_text :: pystr

text \<open>Client, spreadsheet, worksheet, drive, file, buffer, bucket and blob objects.\<close>

type_synonym handle = nat

text \<open>
  Every library call the module makes, as a function that returns or raises. \<open>'v\<close> is
  the type of the objects the parsers build (data frames, dictionaries).
\<close>

record 'v env =
  requests_get :: "string \<Rightarrow> py_error + response"
  read_csv :: "source \<Rightarrow> kwargs \<Rightarrow> py_error + 'v"
  read_excel :: "source \<Rightarrow> kwargs \<Rightarrow> py_error + 'v"
  read_parquet :: "source \<Rightarrow> kwargs \<Rightarrow> py_error + 'v"
  DataFrame :: "pystr list list \<Rightarrow> pystr list \<Rightarrow> py_error + 'v"
  json_load :: "source \<Rightarrow> py_error + 'v"
  json_util_loads :: "bytes \<Rightarrow> kwargs \<Rightarrow> py_error + 'v"
  gspread_service_account :: "string \<Rightarrow> py_error + handle"
  open_by_key :: "handle \<Rightarrow> string \<Rightarrow> py_error + handle"
  get_worksheet :: "handle \<Rightarrow> int \<Rightarrow> py_error + handle"
  get_all_values :: "handle \<Rightarrow> py_error + pystr list list"
  GoogleDrive :: "handle \<Rightarrow> py_error + handle"
  CreateFile :: "handle \<Rightarrow> string \<Rightarrow> py_error + handle"
  GetContentIOBuffer :: "handle \<Rightarrow> py_error + handle"
  buffer_read :: "handle \<Rightarrow> py_error + bytes"
  from_service_account_file :: "string \<Rightarrow> py_error + handle"
  storage_Client :: "string \<Rightarrow> handle \<Rightarrow> py_error + handle"
  get_bucket :: "handle \<Rightarrow> string \<Rightarrow> py_error + handle"
  get_blob :: "handle \<Rightarrow> string \<Rightarrow> py_error + handle option"
  download_as_string :: "handle \<Rightarrow> py_error + bytes"
  codec_on_error :: "string \<Rightarrow> bytes \<Rightarrow> py_error + pystr"

text \<open>What a function of the module returns: \<^verbatim>\<open>None\<close>, a string, or a library object.\<close>

datatype 'v pyobj = PyNone | PyStr pystr | Lib 'v

definition returns :: "py_error + 'v \<Rightarrow> py_error + 'v pyobj" where
  "returns r = and_then r (\<lambda>v. Inr (Lib v))"

section \<open>The module\<close>

subsection \<open>\<^verbatim>\<open>read_public_sheets\<close> (lines 14-29)\<close>

definition read_public_sheets :: "'v env \<Rightarrow> string \<Rightarrow> py_error + 'v pyobj" where
  "read_public_sheets env file_url =
     and_then (requests_get env file_url) (\<lambda>response.
       returns (read_csv env (BytesIO (resp_content response)) []))"

subsection \<open>\<^verbatim>\<open>read_public_file_from_gdrive\<close> (lines 32-66)\<close>

text \<open>Lines 52-57: the download URL, the request, the text stream over the body.\<close>

definition public_gdrive_stream :: "'v env \<Rightarrow> string \<Rightarrow> py_error + source" where
  "public_gdrive_stream env file_url =
     and_then (file_id file_url) (\<lambda>fid.
     and_then (requests_get env (''https://drive.google.com/uc?export=download&id='' @ fid))
       (\<lambda>response. Inr (StringIO (resp_text response))))"

definition read_public_file_from_gdrive ::
  "'v env \<Rightarrow> string \<Rightarrow> string \<Rightarrow> kwargs \<Rightarrow> py_error + 'v pyobj" where
  "read_public_file_from_gdrive env file_url file_format kw =
     and_then (public_gdrive_stream env file_url) (\<lambda>request_str_io.
       if file_format = ''csv'' then returns (read_csv env request_str_io kw)
       else if file_format = ''xlsx'' then returns (read_excel env request_str_io kw)
       else if file_format = ''json'' then returns (json_load env request_str_io)
       else Inr PyNone)"

subsection \<open>\<^verbatim>\<open>read_private_sheets\<close> (lines 69-100)\<close>

text \<open>Lines 92-97: the rows of the chosen worksheet.\<close>

definition private_sheets_rows ::
  "'v env \<Rightarrow> string \<Rightarrow> string \<Rightarrow> int \<Rightarrow> py_error + pystr list list" where
  "private_sheets_rows env credentials_json sheet_url worksheet =
     and_then (file_id sheet_url) (\<lambda>fid.
     and_then (gspread_service_account env credentials_json) (\<lambda>gcloud.
     and_then (open_by_key env gcloud fid) (\<lambda>sheet.
     and_then (get_worksheet env sheet worksheet) (\<lambda>ws.
       get_all_values env ws))))"

text \<open>
  Lines 98-100: the slice \<^verbatim>\<open>rows[1:]\<close> never raises, the index \<^verbatim>\<open>rows[0]\<close> does on
  an empty list, and both are evaluated before the constructor is called.
\<close>

definition read_private_sheets ::
  "'v env \<Rightarrow> string \<Rightarrow> string \<Rightarrow> int \<Rightarrow> py_error + 'v pyobj" where
  "read_private_sheets env credentials_json sheet_url worksheet =
     and_then (private_sheets_rows env credentials_json sheet_url worksheet)
       (\<lambda>list_rows_worksheet.
          and_then (getitem list_rows_worksheet 0) (\<lambda>header.
            returns (DataFrame env (drop 1 list_rows_worksheet) header)))"

subsection \<open>\<^verbatim>\<open>read_private_file_from_gdrive\<close> (lines 103-154)\<close>

text \<open>Lines 127-135: the content buffer of the file named by the URL.\<close>

definition private_gdrive_buffer :: "'v env \<Rightarrow> string \<Rightarrow> handle \<Rightarrow> py_error + handle" where
  "private_gdrive_buffer env file_url google_auth =
     and_then (GoogleDrive env google_auth) (\<lambda>drive.
     and_then (file_id file_url) (\<lambda>fid.
     and_then (CreateFile env drive fid) (\<lambda>file.
       GetContentIOBuffer env file)))"

definition read_private_file_from_gdrive ::
  "'v env \<Rightarrow> string \<Rightarrow> string \<Rightarrow> handle \<Rightarrow> kwargs \<Rightarrow> py_error + 'v pyobj" where
  "read_private_file_from_gdrive env file_url file_format google_auth kw =
     and_then (private_gdrive_buffer env file_url google_auth) (\<lambda>content_io_buffer.
       if file_format = ''csv'' then
         and_then (buffer_read env content_io_buffer) (\<lambda>content.
         and_then (bytes_decode_utf8 (codec_on_error env) content []) (\<lambda>decoded.
           returns (read_csv env (StringIO decoded) kw)))
       else if file_format = ''xlsx'' then
         and_then (buffer_read env content_io_buffer) (\<lambda>content.
           returns (read_excel env (RawBytes content) kw))
       else if file_format = ''parquet'' then
         and_then (buffer_read env content_io_buffer) (\<lambda>byte_stream.
           returns (read_parquet env (BytesIO byte_stream) kw))
       else if file_format = ''json'' then
         and_then (buffer_read env content_io_buffer) (\<lambda>content.
         and_then (bytes_decode_utf8 (codec_on_error env) content []) (\<lambda>decoded.
           returns (json_load env (StringIO decoded))))
       else if file_format = ''txt'' then
         and_then (buffer_read env content_io_buffer) (\<lambda>byte_stream.
         and_then (bytes_decode_utf8 (codec_on_error env) byte_stream kw) (\<lambda>decoded.
           Inr (PyStr decoded)))
       else Inr PyNone)"

subsection \<open>\<^verbatim>\<open>read_file_from_gcloud_storage\<close> (lines 157-214)\<close>

text \<open>
  Lines 191-201: credentials, client, bucket, blob, download. \<^verbatim>\<open>get_blob\<close> returns
  \<^verbatim>\<open>None\<close> for an object that does not exist, and the method call on it raises.
\<close>

definition gcloud_storage_download ::
  "'v env \<Rightarrow> string \<Rightarrow> string \<Rightarrow> string \<Rightarrow> string \<Rightarrow> py_error + bytes" where
  "gcloud_storage_download env file_name gcp_bucket gcp_project gcp_credentials_file =
     and_then (from_service_account_file env gcp_credentials_file) (\<lambda>credentials.
     and_then (storage_Client env gcp_project credentials) (\<lambda>storage_client.
     and_then (get_bucket env storage_client gcp_bucket) (\<lambda>bucket.
     and_then (get_blob env bucket file_name) (\<lambda>blob.
       case blob of
         None \<Rightarrow> Inl AttributeError
       | Some b \<Rightarrow> download_as_string env b))))"

definition read_file_from_gcloud_storage ::
  "'v env \<Rightarrow> string \<Rightarrow> string \<Rightarrow> string \<Rightarrow> string \<Rightarrow> string \<Rightarrow> kwargs
     \<Rightarrow> py_error + 'v pyobj" where
  "read_file_from_gcloud_storage env file_name file_format gcp_bucket gcp_project
       gcp_credentials_file kw =
     and_then (gcloud_storage_download env file_name gcp_bucket gcp_project
                 gcp_credentials_file) (\<lambda>binary_stream.
       if file_format = ''csv'' then returns (read_csv env (BytesIO binary_stream) kw)
       else if file_format = ''parquet'' then
         returns (read_parquet env (BytesIO binary_stream) kw)
       else if file_format = ''json'' then returns (json_util_loads env binary_stream kw)
       else if file_format = ''txt'' then
         and_then (bytes_decode_utf8 (codec_on_error env) binary_stream kw) (\<lambda>decoded.
           Inr (PyStr decoded))
       else Inr PyNone)"

section \<open>A sample environment\<close>

text \<open>
  A stand-in for the libraries, used to run the module on concrete inputs. The parsers
  return a record of what they were called with; the services know one resource
  identifier, serve one payload and one list of worksheet rows, and fail on any other
  identifier.
\<close>

datatype libval =
    Parsed string source kwargs
  | Table "pystr list" "pystr list list"

definition sample_env :: "string \<Rightarrow> bytes \<Rightarrow> pystr list list \<Rightarrow> libval env" where
  "sample_env known_id payload cells =
     \<lparr> requests_get = (\<lambda>url.
         if url = ''https://drive.google.com/uc?export=download&id='' @ known_id
         then Inr \<lparr> resp_content = payload, resp_text = map unat payload \<rparr>
         else Inl (LibraryError ''HTTPError'')),
       read_csv = (\<lambda>src kw. Inr (Parsed ''pd.read_csv'' src kw)),
       read_excel = (\<lambda>src kw. Inr (Parsed ''pd.read_excel'' src kw)),
       read_parquet = (\<lambda>src kw. Inr (Parsed ''pd.read_parquet'' src kw)),
       DataFrame = (\<lambda>data header. Inr (Table header data)),
       json_load = (\<lambda>src. Inr (Parsed ''json.load'' src [])),
       json_util_loads = (\<lambda>b kw. Inr (Parsed ''json_util.loads'' (RawBytes b) kw)),
       gspread_service_account = (\<lambda>filename. Inr 1),
       open_by_key = (\<lambda>client key.
         if key = known_id then Inr 2 else Inl (LibraryError ''SpreadsheetNotFound'')),
       get_worksheet = (\<lambda>sheet index. Inr 3),
       get_all_values = (\<lambda>ws. Inr cells),
       GoogleDrive = (\<lambda>auth. Inr 4),
       CreateFile = (\<lambda>drive key.
         if key = known_id then Inr 5 else Inl (LibraryError ''FileNotFound'')),
       GetContentIOBuffer = (\<lambda>file. Inr 6),
       buffer_read = (\<lambda>buffer. Inr payload),
       from_service_account_file = (\<lambda>filename. Inr 7),
       storage_Client = (\<lambda>project credentials. Inr 8),
       get_bucket = (\<lambda>client name. Inr 9),
       get_blob = (\<lambda>bucket name. if name = known_id then Inr (Some 10) else Inr None),
       download_as_string = (\<lambda>blob. Inr payload),
       codec_on_error = (\<lambda>errors payload. Inl LookupError) \<rparr>"

section \<open>Splitting, joining and indexing\<close>

lemma str_split_no_sep: "sep \<notin> set s \<Longrightarrow> str_split sep s = [s]"
  by (induction s) auto

lemma str_split_append_sep:
  "sep \<notin> set s \<Longrightarrow> str_split sep (s @ sep # rest) = s # str_split sep rest"
  by (induction s) auto

lemma str_split_join:
  "segs \<noteq> [] \<Longrightarrow> list_all (\<lambda>s. sep \<notin> set s) segs
     \<Longrightarrow> str_split sep (str_join sep segs) = segs"
  by (induction sep segs rule: str_join.induct)
     (auto simp: str_split_no_sep str_split_append_sep)

lemma getitem_second_to_last:
  "2 \<le> length xs \<Longrightarrow> getitem xs (- 2) = Inr (xs ! (length xs - 2))"
  by (auto simp: getitem_def nat_diff_distrib' intro!: arg_cong[where f="nth xs"])

lemma getitem_too_short: "length xs < 2 \<Longrightarrow> getitem xs (- 2) = Inl IndexError"
  by (auto simp: getitem_def)

lemma file_id_join:
  assumes "list_all (\<lambda>s. CHR ''/'' \<notin> set s) segs" and "2 \<le> length segs"
  shows "file_id (str_join CHR ''/'' segs) = Inr (segs ! (length segs - 2))"
proof -
  from assms(2) have "segs \<noteq> []" by auto
  then have "str_split CHR ''/'' (str_join CHR ''/'' segs) = segs"
    using assms(1) by (rule str_split_join)
  with assms(2) show ?thesis
    by (simp add: file_id_def getitem_second_to_last)
qed

lemma and_then_Inr [simp]: "and_then (Inr x) k = k x"
  by (simp add: and_then_def)

lemma and_then_Inl [simp]: "and_then (Inl e) k = Inl e"
  by (simp add: and_then_def)

lemma returns_Inr [simp]: "returns (Inr v) = Inr (Lib v)"
  by (simp add: returns_def)

lemma returns_Inl [simp]: "returns (Inl e) = Inl e"
  by (simp add: returns_def)

lemma sample_env_simps:
  "requests_get (sample_env k p c) = (\<lambda>url.
     if url = ''https://drive.google.com/uc?export=download&id='' @ k
     then Inr \<lparr> resp_content = p, resp_text = map unat p \<rparr>
     else Inl (LibraryError ''HTTPError''))"
  "read_csv (sample_env k p c) = (\<lambda>src kw. Inr (Parsed ''pd.read_csv'' src kw))"
  "read_excel (sample_env k p c) = (\<lambda>src kw. Inr (Parsed ''pd.read_excel'' src kw))"
  "read_parquet (sample_env k p c) = (\<lambda>src kw. Inr (Parsed ''pd.read_parquet'' src kw))"
  "DataFrame (sample_env k p c) = (\<lambda>data header. Inr (Table header data))"
  "json_load (sample_env k p c) = (\<lambda>src. Inr (Parsed ''json.load'' src []))"
  "json_util_loads (sample_env k p c) =
     (\<lambda>b kw. Inr (Parsed ''json_util.loads'' (RawBytes b) kw))"
  "gspread_service_account (sample_env k p c) = (\<lambda>filename. Inr 1)"
  "open_by_key (sample_env k p c) = (\<lambda>client key.
     if key = k then Inr 2 else Inl (LibraryError ''SpreadsheetNotFound''))"
  "get_worksheet (sample_env k p c) = (\<lambda>sheet index. Inr 3)"
  "get_all_values (sample_env k p c) = (\<lambda>ws. Inr c)"
  "GoogleDrive (sample_env k p c) = (\<lambda>auth. Inr 4)"
  "CreateFile (sample_env k p c) = (\<lambda>drive key.
     if key = k then Inr 5 else Inl (LibraryError ''FileNotFound''))"
  "GetContentIOBuffer (sample_env k p c) = (\<lambda>file. Inr 6)"
  "buffer_read (sample_env k p c) = (\<lambda>buffer. Inr p)"
  "from_service_account_file (sample_env k p c) = (\<lambda>filename. Inr 7)"
  "storage_Client (sample_env k p c) = (\<lambda>project credentials. Inr 8)"
  "get_bucket (sample_env k p c) = (\<lambda>client name. Inr 9)"
  "get_blob (sample_env k p c) =
     (\<lambda>bucket name. if name = k then Inr (Some 10) else Inr None)"
  "download_as_string (sample_env k p c) = (\<lambda>blob. Inr p)"
  "codec_on_error (sample_env k p c) = (\<lambda>errors payload. Inl LookupError)"
  by (simp_all add: sample_env_def)

section \<open>The resource identifier of a URL\<close>

lemma file_id_sheets_example:
  "file_id ''https://docs.google.com/spreadsheets/d/ABC123/edit#gid=0'' = Inr ''ABC123''"
  using file_id_join
    [of "[''https:'', '''', ''docs.google.com'', ''spreadsheets'', ''d'', ''ABC123'',
          ''edit#gid=0'']"]
  by simp

text \<open>
  C3. A URL made of two or more segments joined by \<open>/\<close> has the second-to-last segment
  as its identifier; the Sheets URL of the specification gives \<open>ABC123\<close>; and
  \<^verbatim>\<open>read_public_file_from_gdrive\<close>, \<^verbatim>\<open>read_private_sheets\<close> and
  \<^verbatim>\<open>read_private_file_from_gdrive\<close> hand exactly this identifier to the service: in the
  download URL, to \<^verbatim>\<open>open_by_key\<close>, and to \<^verbatim>\<open>CreateFile\<close>.
\<close>

theorem file_id_is_second_to_last_segment:
  "(list_all (\<lambda>s. CHR ''/'' \<notin> set s) segs \<and> 2 \<le> length segs \<longrightarrow>
      file_id (str_join CHR ''/'' segs) = Inr (segs ! (length segs - 2)))
   \<and> file_id ''https://docs.google.com/spreadsheets/d/ABC123/edit#gid=0'' = Inr ''ABC123''
   \<and> (file_id url = Inr fid \<longrightarrow>
        public_gdrive_stream env url =
          and_then
            (requests_get env (''https://drive.google.com/uc?export=download&id='' @ fid))
            (\<lambda>response. Inr (StringIO (resp_text response)))
      \<and> private_sheets_rows env credentials_json url worksheet =
          and_then (gspread_service_account env credentials_json) (\<lambda>gcloud.
          and_then (open_by_key env gcloud fid) (\<lambda>sheet.
          and_then (get_worksheet env sheet worksheet) (get_all_values env)))
      \<and> private_gdrive_buffer env url google_auth =
          and_then (GoogleDrive env google_auth) (\<lambda>drive.
          and_then (CreateFile env drive fid) (GetContentIOBuffer env)))"
proof (intro conjI impI)
  show "file_id ''https://docs.google.com/spreadsheets/d/ABC123/edit#gid=0'' = Inr ''ABC123''"
    by (rule file_id_sheets_example)
qed (simp_all add: file_id_join public_gdrive_stream_def private_sheets_rows_def
       private_gdrive_buffer_def)

theorem file_id_is_second_to_last_segment_witness:
  "file_id ''https://drive.google.com/file/d/1AbC/view'' = Inr ''1AbC''
   \<and> public_gdrive_stream (sample_env ''1AbC'' [0x68, 0x69] [[[97]]])
         ''https://drive.google.com/file/d/1AbC/view'' = Inr (StringIO [104, 105])
   \<and> private_sheets_rows (sample_env ''1AbC'' [0x68, 0x69] [[[97]]]) ''key.json''
         ''https://drive.google.com/file/d/1AbC/view'' 0 = Inr [[[97]]]
   \<and> private_gdrive_buffer (sample_env ''1AbC'' [0x68, 0x69] [[[97]]])
         ''https://drive.google.com/file/d/1AbC/view'' 0 = Inr 6"
  using file_id_is_second_to_last_segment
    [where segs = "[''https:'', '''', ''drive.google.com'', ''file'', ''d'', ''1AbC'', ''view'']"
       and url = "''https://drive.google.com/file/d/1AbC/view''" and fid = "''1AbC''"
       and env = "sample_env ''1AbC'' [0x68, 0x69] [[[97]]]"
       and credentials_json = "''key.json''" and worksheet = 0 and google_auth = 0]
  by (simp add: sample_env_simps)

section \<open>Retrieval in the sample environment\<close>

lemma sample_file_id:
  assumes "url = ''https://drive.google.com/file/d/'' @ k @ ''/view''"
    and "CHR ''/'' \<notin> set k"
  shows "file_id url = Inr k"
  using assms
    file_id_join [of "[''https:'', '''', ''drive.google.com'', ''file'', ''d'', k, ''view'']"]
  by simp

lemma sample_public_stream:
  "url = ''https://drive.google.com/file/d/'' @ k @ ''/view'' \<Longrightarrow> CHR ''/'' \<notin> set k \<Longrightarrow>
   public_gdrive_stream (sample_env k p c) url = Inr (StringIO (map unat p))"
  by (simp add: public_gdrive_stream_def sample_env_simps sample_file_id)

lemma sample_private_buffer:
  "url = ''https://drive.google.com/file/d/'' @ k @ ''/view'' \<Longrightarrow> CHR ''/'' \<notin> set k \<Longrightarrow>
   private_gdrive_buffer (sample_env k p c) url auth = Inr 6"
  by (simp add: private_gdrive_buffer_def sample_env_simps sample_file_id)

lemma sample_private_rows:
  "url = ''https://drive.google.com/file/d/'' @ k @ ''/view'' \<Longrightarrow> CHR ''/'' \<notin> set k \<Longrightarrow>
   private_sheets_rows (sample_env k p c) cred url w = Inr c"
  by (simp add: private_sheets_rows_def sample_env_simps sample_file_id)

lemma sample_gcloud_download:
  "gcloud_storage_download (sample_env k p c) k bucket project cred = Inr p"
  by (simp add: gcloud_storage_download_def sample_env_simps)

section \<open>Format tags without a branch\<close>

text \<open>
  C1. Once retrieval has returned, a format tag outside the tags a function tests for
  falls through every \<^verbatim>\<open>elif\<close> and the function returns \<^verbatim>\<open>None\<close>; no exception is
  raised. This holds alike for \<^verbatim>\<open>read_public_file_from_gdrive\<close> (tags csv, xlsx, json),
  \<^verbatim>\<open>read_private_file_from_gdrive\<close> (csv, xlsx, parquet, json, txt) and
  \<^verbatim>\<open>read_file_from_gcloud_storage\<close> (csv, parquet, json, txt).
\<close>

theorem unsupported_format_returns_None:
  "(file_format \<notin> {''csv'', ''xlsx'', ''json''}
      \<and> public_gdrive_stream env file_url = Inr request_str_io \<longrightarrow>
    read_public_file_from_gdrive env file_url file_format kw = Inr PyNone)
   \<and> (file_format \<notin> {''csv'', ''xlsx'', ''parquet'', ''json'', ''txt''}
      \<and> private_gdrive_buffer env file_url google_auth = Inr content_io_buffer \<longrightarrow>
    read_private_file_from_gdrive env file_url file_format google_auth kw = Inr PyNone)
   \<and> (file_format \<notin> {''csv'', ''parquet'', ''json'', ''txt''}
      \<and> gcloud_storage_download env file_name gcp_bucket gcp_project gcp_credentials_file
          = Inr binary_stream \<longrightarrow>
    read_file_from_gcloud_storage env file_name file_format gcp_bucket gcp_project
      gcp_credentials_file kw = Inr PyNone)"
  by (simp add: read_public_file_from_gdrive_def read_private_file_from_gdrive_def
        read_file_from_gcloud_storage_def)

theorem unsupported_format_returns_None_witness:
  "read_public_file_from_gdrive (sample_env ''1AbC'' [] [])
      ''https://drive.google.com/file/d/1AbC/view'' ''yaml'' [] = Inr PyNone
   \<and> read_private_file_from_gdrive (sample_env ''1AbC'' [] [])
      ''https://drive.google.com/file/d/1AbC/view'' ''yaml'' 0 [] = Inr PyNone
   \<and> read_file_from_gcloud_storage (sample_env ''1AbC'' [] [])
      ''1AbC'' ''yaml'' ''bucket'' ''project'' ''key.json'' [] = Inr PyNone"
  using unsupported_format_returns_None
    [where file_format = "''yaml''" and env = "sample_env ''1AbC'' [] []"
       and file_url = "''https://drive.google.com/file/d/1AbC/view''"
       and request_str_io = "StringIO []" and google_auth = 0 and content_io_buffer = 6
       and file_name = "''1AbC''" and gcp_bucket = "''bucket''"
       and gcp_project = "''project''" and gcp_credentials_file = "''key.json''"
       and binary_stream = "[]" and kw = "[]"]
  by (simp add: sample_public_stream sample_private_buffer sample_gcloud_download)

text \<open>
  C9. The docstring of \<^verbatim>\<open>read_file_from_gcloud_storage\<close> lists xlsx, but the function
  has no branch for it: with the tag xlsx it returns \<^verbatim>\<open>None\<close> for every payload, and
  for no tag at all does its result depend on the spreadsheet parser.
\<close>

theorem gcloud_storage_xlsx_returns_None:
  "(gcloud_storage_download env file_name gcp_bucket gcp_project gcp_credentials_file
      = Inr binary_stream \<longrightarrow>
    read_file_from_gcloud_storage env file_name ''xlsx'' gcp_bucket gcp_project
      gcp_credentials_file kw = Inr PyNone)
   \<and> read_file_from_gcloud_storage (env\<lparr>read_excel := other_parser\<rparr>) file_name
        file_format gcp_bucket gcp_project gcp_credentials_file kw
     = read_file_from_gcloud_storage env file_name file_format gcp_bucket gcp_project
        gcp_credentials_file kw"
  by (simp add: read_file_from_gcloud_storage_def gcloud_storage_download_def
        cong: if_cong option.case_cong)

theorem gcloud_storage_xlsx_returns_None_witness:
  "read_file_from_gcloud_storage (sample_env ''book.xlsx'' [0x50, 0x4B, 0x03, 0x04] [])
      ''book.xlsx'' ''xlsx'' ''bucket'' ''project'' ''key.json'' [] = Inr PyNone"
  using gcloud_storage_xlsx_returns_None
    [where env = "sample_env ''book.xlsx'' [0x50, 0x4B, 0x03, 0x04] []"
       and file_name = "''book.xlsx''" and gcp_bucket = "''bucket''"
       and gcp_project = "''project''" and gcp_credentials_file = "''key.json''"
       and binary_stream = "[0x50, 0x4B, 0x03, 0x04]" and kw = "[]"
       and file_format = "''xlsx''" and other_parser = "\<lambda>src kw. Inl ValueError"]
  by (simp add: sample_gcloud_download)

section \<open>The worksheet of a private spreadsheet\<close>

text \<open>
  C4. When the worksheet yields a first row and the rows after it, the result of
  \<^verbatim>\<open>read_private_sheets\<close> is the frame the constructor builds with the first row as
  its column headers and the remaining rows, in their order, as its data.
\<close>

theorem read_private_sheets_header_and_rows:
  "private_sheets_rows env credentials_json sheet_url worksheet = Inr (header # data)
     \<Longrightarrow> read_private_sheets env credentials_json sheet_url worksheet
          = returns (DataFrame env data header)"
  by (simp add: read_private_sheets_def getitem_def)

theorem read_private_sheets_header_and_rows_witness:
  "read_private_sheets
      (sample_env ''1AbC'' []
         [[str ''name'', str ''age''], [str ''ann'', str ''41''], [str ''bob'', str ''7'']])
      ''key.json'' ''https://drive.google.com/file/d/1AbC/view'' 0
     = Inr (Lib (Table [str ''name'', str ''age'']
                   [[str ''ann'', str ''41''], [str ''bob'', str ''7'']]))"
  using read_private_sheets_header_and_rows
    [where env = "sample_env ''1AbC'' []
         [[str ''name'', str ''age''], [str ''ann'', str ''41''], [str ''bob'', str ''7'']]"
       and credentials_json = "''key.json''"
       and sheet_url = "''https://drive.google.com/file/d/1AbC/view''"
       and worksheet = 0 and header = "[str ''name'', str ''age'']"
       and data = "[[str ''ann'', str ''41''], [str ''bob'', str ''7'']]"]
  by (simp add: sample_private_rows sample_env_simps)

text \<open>
  C10. On an empty list of rows the header index \<^verbatim>\<open>rows[0]\<close> raises \<^verbatim>\<open>IndexError\<close>:
  no frame, empty or not, is returned. On a non-empty list the index returns the first
  row, so the outcome is the constructor's.
\<close>

theorem read_private_sheets_empty_raises:
  "(private_sheets_rows env credentials_json sheet_url worksheet = Inr [] \<longrightarrow>
      read_private_sheets env credentials_json sheet_url worksheet = Inl IndexError)
   \<and> (private_sheets_rows env credentials_json sheet_url worksheet = Inr rows
        \<and> rows \<noteq> [] \<longrightarrow>
      getitem rows 0 = Inr (hd rows)
      \<and> read_private_sheets env credentials_json sheet_url worksheet
          = returns (DataFrame env (tl rows) (hd rows)))"
  by (cases rows) (simp_all add: read_private_sheets_def getitem_def)

theorem read_private_sheets_empty_raises_witness:
  "read_private_sheets (sample_env ''1AbC'' [] []) ''key.json''
      ''https://drive.google.com/file/d/1AbC/view'' 0 = Inl IndexError
   \<and> read_private_sheets (sample_env ''1AbC'' [] [[str ''name'']]) ''key.json''
      ''https://drive.google.com/file/d/1AbC/view'' 0 = Inr (Lib (Table [str ''name''] []))"
  using read_private_sheets_empty_raises
    [where env = "sample_env ''1AbC'' [] []" and credentials_json = "''key.json''"
       and sheet_url = "''https://drive.google.com/file/d/1AbC/view''" and worksheet = 0
       and rows = "[[str ''name'']]"]
    read_private_sheets_empty_raises
    [where env = "sample_env ''1AbC'' [] [[str ''name'']]" and credentials_json = "''key.json''"
       and sheet_url = "''https://drive.google.com/file/d/1AbC/view''" and worksheet = 0
       and rows = "[[str ''name'']]"]
  by (simp add: sample_private_rows sample_env_simps)

section \<open>Text payloads\<close>

lemma encoding_keyword_rejected:
  assumes "map_of kw ''encoding'' = Some v"
  shows "bytes_decode_utf8 on_error payload kw = Inl TypeError"
proof -
  from assms have "(''encoding'', v) \<in> set kw"
    by (rule map_of_SomeD)
  then have "list_ex (\<lambda>(name, v). name \<noteq> ''errors'') kw"
    by (auto simp: list_ex_iff intro!: bexI[of _ "(''encoding'', v)"])
  then show ?thesis
    by (simp add: bytes_decode_utf8_def)
qed

lemma bytes_decode_utf8_default:
  "bytes_decode_utf8 on_error payload [] = decode_utf8 on_error ''strict'' payload"
  by (simp add: bytes_decode_utf8_def)

lemma bytes_decode_utf8_errors:
  "CHR 0x00 \<notin> set errors \<Longrightarrow>
   bytes_decode_utf8 on_error payload [(''errors'', KStr errors)]
     = decode_utf8 on_error errors payload"
  by (simp add: bytes_decode_utf8_def)

lemma decode_utf8_hello:
  "decode_utf8 on_error errors (encode_ascii ''hello'') = Inr (str ''hello'')"
  by (simp add: decode_utf8_def encode_ascii_def str_def)

text \<open>
  C5, as the code has it. With the tag txt, \<^verbatim>\<open>read_private_file_from_gdrive\<close> and
  \<^verbatim>\<open>read_file_from_gcloud_storage\<close> decode the payload as UTF-8: strictly when no
  option is given, under the policy \<^verbatim>\<open>errors\<close> when the caller gives one. The
  encoding is fixed: options that carry \<^verbatim>\<open>encoding\<close> make the call raise
  \<^verbatim>\<open>TypeError\<close>. The UTF-8 bytes of \<open>hello\<close> decode to \<open>hello\<close> under every policy.
\<close>

theorem txt_decodes_utf8_under_errors_policy:
  "(private_gdrive_buffer env file_url google_auth = Inr content_io_buffer
      \<and> buffer_read env content_io_buffer = Inr payload \<longrightarrow>
      read_private_file_from_gdrive env file_url ''txt'' google_auth []
        = and_then (decode_utf8 (codec_on_error env) ''strict'' payload)
            (\<lambda>s. Inr (PyStr s))
      \<and> (CHR 0x00 \<notin> set errors \<longrightarrow>
          read_private_file_from_gdrive env file_url ''txt'' google_auth
            [(''errors'', KStr errors)]
          = and_then (decode_utf8 (codec_on_error env) errors payload)
              (\<lambda>s. Inr (PyStr s)))
      \<and> (map_of kw ''encoding'' = Some encoding \<longrightarrow>
          read_private_file_from_gdrive env file_url ''txt'' google_auth kw
          = Inl TypeError))
   \<and> (gcloud_storage_download env file_name gcp_bucket gcp_project gcp_credentials_file
        = Inr payload \<longrightarrow>
      read_file_from_gcloud_storage env file_name ''txt'' gcp_bucket gcp_project
          gcp_credentials_file []
        = and_then (decode_utf8 (codec_on_error env) ''strict'' payload)
            (\<lambda>s. Inr (PyStr s))
      \<and> (CHR 0x00 \<notin> set errors \<longrightarrow>
          read_file_from_gcloud_storage env file_name ''txt'' gcp_bucket gcp_project
            gcp_credentials_file [(''errors'', KStr errors)]
          = and_then (decode_utf8 (codec_on_error env) errors payload)
              (\<lambda>s. Inr (PyStr s)))
      \<and> (map_of kw ''encoding'' = Some encoding \<longrightarrow>
          read_file_from_gcloud_storage env file_name ''txt'' gcp_bucket gcp_project
            gcp_credentials_file kw = Inl TypeError))
   \<and> decode_utf8 on_error errors (encode_ascii ''hello'') = Inr (str ''hello'')"
  by (simp add: read_private_file_from_gdrive_def read_file_from_gcloud_storage_def
        bytes_decode_utf8_default bytes_decode_utf8_errors encoding_keyword_rejected
        decode_utf8_hello)

theorem txt_decodes_utf8_under_errors_policy_witness:
  "read_private_file_from_gdrive (sample_env ''1AbC'' (encode_ascii ''hello'') [])
      ''https://drive.google.com/file/d/1AbC/view'' ''txt'' 0 [] = Inr (PyStr (str ''hello''))
   \<and> read_private_file_from_gdrive (sample_env ''1AbC'' (encode_ascii ''hello'') [])
      ''https://drive.google.com/file/d/1AbC/view'' ''txt'' 0 [(''errors'', KStr ''replace'')]
      = Inr (PyStr (str ''hello''))
   \<and> read_file_from_gcloud_storage (sample_env ''1AbC'' (encode_ascii ''hello'') [])
      ''1AbC'' ''txt'' ''bucket'' ''project'' ''key.json'' [] = Inr (PyStr (str ''hello''))
   \<and> read_file_from_gcloud_storage (sample_env ''1AbC'' (encode_ascii ''hello'') [])
      ''1AbC'' ''txt'' ''bucket'' ''project'' ''key.json'' [(''errors'', KStr ''replace'')]
      = Inr (PyStr (str ''hello''))"
  using txt_decodes_utf8_under_errors_policy
    [where env = "sample_env ''1AbC'' (encode_ascii ''hello'') []"
       and file_url = "''https://drive.google.com/file/d/1AbC/view''" and google_auth = 0
       and content_io_buffer = 6 and payload = "encode_ascii ''hello''"
       and errors = "''replace''" and kw = "[(''encoding'', KStr ''latin-1'')]"
       and encoding = "KStr ''latin-1''" and file_name = "''1AbC''"
       and gcp_bucket = "''bucket''" and gcp_project = "''project''"
       and gcp_credentials_file = "''key.json''"
       and on_error = "codec_on_error (sample_env ''1AbC'' (encode_ascii ''hello'') [])"]
  by (simp add: sample_private_buffer sample_gcloud_download sample_env_simps
        decode_utf8_hello)

text \<open>
  C5, as the specification has it, fails where the caller names an encoding: for the
  Latin-1 byte \<open>0xE9\<close> and the option \<^verbatim>\<open>encoding="latin-1"\<close> neither function returns
  a string.
\<close>

theorem caller_encoding_counterexample:
  "read_file_from_gcloud_storage (sample_env ''notes.txt'' [0xE9] [])
      ''notes.txt'' ''txt'' ''bucket'' ''project'' ''key.json''
      [(''encoding'', KStr ''latin-1'')] = Inl TypeError
   \<and> read_private_file_from_gdrive (sample_env ''1AbC'' [0xE9] [])
      ''https://drive.google.com/file/d/1AbC/view'' ''txt'' 0
      [(''encoding'', KStr ''latin-1'')] = Inl TypeError"
  by (simp add: read_file_from_gcloud_storage_def read_private_file_from_gdrive_def
        sample_gcloud_download sample_private_buffer sample_env_simps bytes_decode_utf8_def)

section \<open>What each parser is handed\<close>

text \<open>
  The tag csv: the public Drive function parses the text stream over the response, the
  private one a text stream over the strictly decoded content, the Cloud Storage one a
  byte stream; all three forward the caller's options.
\<close>

lemma csv_dispatch:
  "public_gdrive_stream env file_url = Inr request_str_io \<Longrightarrow>
     read_public_file_from_gdrive env file_url ''csv'' kw
       = returns (read_csv env request_str_io kw)"
  "private_gdrive_buffer env file_url google_auth = Inr content_io_buffer \<Longrightarrow>
   buffer_read env content_io_buffer = Inr payload \<Longrightarrow>
     read_private_file_from_gdrive env file_url ''csv'' google_auth kw
       = and_then (decode_utf8 (codec_on_error env) ''strict'' payload)
           (\<lambda>decoded. returns (read_csv env (StringIO decoded) kw))"
  "gcloud_storage_download env file_name gcp_bucket gcp_project gcp_credentials_file
     = Inr payload \<Longrightarrow>
     read_file_from_gcloud_storage env file_name ''csv'' gcp_bucket gcp_project
         gcp_credentials_file kw
       = returns (read_csv env (BytesIO payload) kw)"
  by (simp_all add: read_public_file_from_gdrive_def read_private_file_from_gdrive_def
        read_file_from_gcloud_storage_def bytes_decode_utf8_default)

text \<open>
  The tag json: the Drive functions call \<^verbatim>\<open>json.load\<close> on a text stream and drop the
  caller's options; the Cloud Storage function calls \<^verbatim>\<open>json_util.loads\<close> on the
  downloaded bytes and forwards them.
\<close>

lemma json_dispatch:
  "public_gdrive_stream env file_url = Inr request_str_io \<Longrightarrow>
     read_public_file_from_gdrive env file_url ''json'' kw
       = returns (json_load env request_str_io)"
  "private_gdrive_buffer env file_url google_auth = Inr content_io_buffer \<Longrightarrow>
   buffer_read env content_io_buffer = Inr payload \<Longrightarrow>
     read_private_file_from_gdrive env file_url ''json'' google_auth kw
       = and_then (decode_utf8 (codec_on_error env) ''strict'' payload)
           (\<lambda>decoded. returns (json_load env (StringIO decoded)))"
  "gcloud_storage_download env file_name gcp_bucket gcp_project gcp_credentials_file
     = Inr payload \<Longrightarrow>
     read_file_from_gcloud_storage env file_name ''json'' gcp_bucket gcp_project
         gcp_credentials_file kw
       = returns (json_util_loads env payload kw)"
  by (simp_all add: read_public_file_from_gdrive_def read_private_file_from_gdrive_def
        read_file_from_gcloud_storage_def bytes_decode_utf8_default)

text \<open>
  The tag xlsx: the private Drive function hands the spreadsheet parser the bytes it
  read; the public one hands it the text stream over the decoded response body, and
  never looks at the bytes of the response.
\<close>

lemma xlsx_dispatch:
  "file_id file_url = Inr fid \<Longrightarrow>
   requests_get env (''https://drive.google.com/uc?export=download&id='' @ fid)
     = Inr response \<Longrightarrow>
     read_public_file_from_gdrive env file_url ''xlsx'' kw
       = returns (read_excel env (StringIO (resp_text response)) kw)"
  "private_gdrive_buffer env file_url google_auth = Inr content_io_buffer \<Longrightarrow>
   buffer_read env content_io_buffer = Inr payload \<Longrightarrow>
     read_private_file_from_gdrive env file_url ''xlsx'' google_auth kw
       = returns (read_excel env (RawBytes payload) kw)"
  by (simp_all add: read_public_file_from_gdrive_def read_private_file_from_gdrive_def
        public_gdrive_stream_def)

text \<open>
  C2 at a concrete input: a response whose body starts with the four bytes of a ZIP
  archive, as every xlsx file does. \<^verbatim>\<open>read_private_file_from_gdrive\<close> passes these
  bytes to \<^verbatim>\<open>pd.read_excel\<close>; \<^verbatim>\<open>read_public_file_from_gdrive\<close> passes a
  \<^verbatim>\<open>StringIO\<close> over the text requests made of them.
\<close>

theorem public_xlsx_parses_text_stream:
  "read_public_file_from_gdrive (sample_env ''1AbC'' [0x50, 0x4B, 0x03, 0x04] [])
      ''https://drive.google.com/file/d/1AbC/view'' ''xlsx'' []
     = Inr (Lib (Parsed ''pd.read_excel'' (StringIO [80, 75, 3, 4]) []))
   \<and> read_private_file_from_gdrive (sample_env ''1AbC'' [0x50, 0x4B, 0x03, 0x04] [])
      ''https://drive.google.com/file/d/1AbC/view'' ''xlsx'' 0 []
     = Inr (Lib (Parsed ''pd.read_excel'' (RawBytes [0x50, 0x4B, 0x03, 0x04]) []))"
  by (simp add: read_public_file_from_gdrive_def read_private_file_from_gdrive_def
        sample_public_stream sample_private_buffer sample_env_simps)

end
